theory Spec2Isabelle
  imports Complex_Main "HOL-Library.Word"
begin

section \<open>The web gateway of the AI microservices application (web-service/src/server.ts)\<close>

text \<open>
  The gateway is an Express application. Each route handler reads the parsed request
  body, validates it, makes at most one outbound call through axios and writes one
  response. The handlers are modelled as functions from the request body and the
  behaviour of the outbound call to the response written and the list of outbound
  calls made, in the order of the source.
\<close>

subsection \<open>JavaScript values\<close>

text \<open>
  A JavaScript string is a sequence of UTF-16 code units and \<open>length\<close> counts code
  units. A string literal of the source is ASCII; \<open>lit\<close> gives its code units.
\<close>

type_synonym jsstring = "16 word list"

definition lit :: "string \<Rightarrow> jsstring" where
  "lit s = map (\<lambda>c. of_nat (of_char c)) s"

text \<open>
  The values a parsed request or response body can hold, and \<open>undefined\<close> for a
  property that is absent. A number is represented by its value: only whether it is zero
  matters to the handlers. An object is the list of its own properties, each key once.
\<close>

datatype jsval =
    JUndefined
  | JNull
  | JBool bool
  | JNum rat
  | JStr jsstring
  | JArr "jsval list"
  | JObj "(jsstring \<times> jsval) list"

text \<open>What a \<open>throw\<close> carries, as far as the catch blocks read it: \<open>error.code\<close>,
  \<open>error.response\<close> (status and data) and \<open>error.message\<close>. A TypeError has neither a
  code nor a response.\<close>

record js_error =
  code :: "jsstring option"
  response :: "(nat \<times> jsval) option"
  message :: jsstring

definition type_error :: js_error where
  "type_error = \<lparr>code = None, response = None, message = lit ''TypeError''\<rparr>"

text \<open>\<open>!v\<close> is \<open>\<not> truthy v\<close>.\<close>

fun truthy :: "jsval \<Rightarrow> bool" where
  "truthy JUndefined = False"
| "truthy JNull = False"
| "truthy (JBool b) = b"
| "truthy (JNum n) = (n \<noteq> 0)"
| "truthy (JStr s) = (s \<noteq> [])"
| "truthy (JArr xs) = True"
| "truthy (JObj kvs) = True"

text \<open>
  \<open>const { name } = body\<close>: reading a property of \<open>undefined\<close> or \<open>null\<close> throws a
  TypeError; an object gives its own property or \<open>undefined\<close>; the other values have
  none of the properties read here (\<open>text\<close>, \<open>texts\<close>, \<open>sentiment\<close>, \<open>confidence\<close>).
\<close>

fun get_prop :: "jsval \<Rightarrow> jsstring \<Rightarrow> js_error + jsval" where
  "get_prop JUndefined name = Inl type_error"
| "get_prop JNull name = Inl type_error"
| "get_prop (JObj kvs) name = Inr (case map_of kvs name of None \<Rightarrow> JUndefined | Some v \<Rightarrow> v)"
| "get_prop v name = Inr JUndefined"

text \<open>
  \<open>String.prototype.trim\<close> removes the white space and line terminator code units
  of ECMAScript from both ends.
\<close>

definition is_white_space :: "16 word \<Rightarrow> bool" where
  "is_white_space c \<longleftrightarrow>
     c = 0x0009 \<or> c = 0x000A \<or> c = 0x000B \<or> c = 0x000C \<or> c = 0x000D \<or> c = 0x0020 \<or>
     c = 0x00A0 \<or> c = 0x1680 \<or> (0x2000 \<le> c \<and> c \<le> 0x200A) \<or> c = 0x2028 \<or>
     c = 0x2029 \<or> c = 0x202F \<or> c = 0x205F \<or> c = 0x3000 \<or> c = 0xFEFF"

definition trim :: "jsstring \<Rightarrow> jsstring" where
  "trim s = rev (dropWhile is_white_space (rev (dropWhile is_white_space s)))"

text \<open>\<open>v.trim()\<close>: only a string has a method \<open>trim\<close>; on any other value of a parsed
  body the property is absent or not a function and the call throws a TypeError.\<close>

fun call_trim :: "jsval \<Rightarrow> js_error + jsstring" where
  "call_trim (JStr s) = Inr (trim s)"
| "call_trim v = Inl type_error"

text \<open>\<open>v.length\<close> of a string or an array; \<open>None\<close> is \<open>undefined\<close>.\<close>

fun js_length :: "jsval \<Rightarrow> nat option" where
  "js_length (JStr s) = Some (length s)"
| "js_length (JArr xs) = Some (length xs)"
| "js_length v = None"

text \<open>\<open>typeof v !== 'string'\<close>.\<close>

fun not_string :: "jsval \<Rightarrow> bool" where
  "not_string (JStr s) = False"
| "not_string v = True"

text \<open>The decimal digits of an index, as a template literal prints it.\<close>

fun decimal :: "nat \<Rightarrow> jsstring" where
  "decimal n = (if n < 10 then [of_nat (48 + n)] else decimal (n div 10) @ [of_nat (48 + n mod 10)])"

declare decimal.simps [simp del]

subsection \<open>Responses and outbound calls\<close>

record CombinedHealthResponse =
  web_service :: jsstring
  ai_service :: jsval
  error :: "jsstring option"

record ErrorResponse =
  error :: jsstring
  details :: "jsval option"

text \<open>What goes out after the status line and the headers: one of the JSON bodies, or
  nothing.\<close>

datatype payload =
    ErrorJson ErrorResponse
  | HealthJson CombinedHealthResponse
  | DataJson jsval
  | NoBody

record http_response =
  status :: nat
  body :: payload

datatype http_method = GET | POST

record outbound =
  verb :: http_method
  url :: jsstring
  data :: "jsval option"
  timeout :: nat
  headers :: "(jsstring \<times> jsstring) list"

text \<open>
  The axios call is a parameter of the handlers: for an outbound call it either resolves
  with the data of the upstream response or rejects with an error.
\<close>

type_synonym axios = "outbound \<Rightarrow> js_error + jsval"

text \<open>
  The statuses that are sent without a body: for 204, 205 and 304 \<open>res.send\<close> of Express
  empties the body it was given, and Node writes no body with a 1xx, 204 or 304 status.
\<close>

definition no_body_status :: "nat \<Rightarrow> bool" where
  "no_body_status n \<longleftrightarrow> (100 \<le> n \<and> n \<le> 199) \<or> n = 204 \<or> n = 205 \<or> n = 304"

text \<open>
  \<open>res.status(n).json(errorResponse)\<close>, for a three-digit status \<open>n\<close> (Node writes no
  other): the status is \<open>n\<close>, and the JSON body is sent unless \<open>n\<close> is a status
  without body. \<open>res.json(data)\<close> answers with status 200.
\<close>

definition error_json :: "nat \<Rightarrow> jsstring \<Rightarrow> jsval option \<Rightarrow> http_response" where
  "error_json n e d =
     \<lparr>status = n,
      body = (if no_body_status n then NoBody else ErrorJson \<lparr>error = e, details = d\<rparr>)\<rparr>"

definition res_json :: "jsval \<Rightarrow> http_response" where
  "res_json v = \<lparr>status = 200, body = DataJson v\<rparr>"

subsection \<open>GET /api/health\<close>

definition health_call :: "jsstring \<Rightarrow> outbound" where
  "health_call base =
     \<lparr>verb = GET, url = base @ lit ''/health'', data = None, timeout = 5000, headers = []\<rparr>"

definition api_health_handler :: "jsstring \<Rightarrow> axios \<Rightarrow> http_response \<times> outbound list" where
  "api_health_handler base ax =
     (let c = health_call base in
      case ax c of
        Inr d \<Rightarrow>
          (\<lparr>status = 200,
            body = HealthJson \<lparr>web_service = lit ''healthy'', ai_service = d,
                               CombinedHealthResponse.error = None\<rparr>\<rparr>, [c])
      | Inl e \<Rightarrow>
          (\<lparr>status = 503,
            body = HealthJson \<lparr>web_service = lit ''healthy'',
                               ai_service = JStr (lit ''unavailable''),
                               CombinedHealthResponse.error = Some (message e)\<rparr>\<rparr>, [c]))"

subsection \<open>POST /api/analyze\<close>

text \<open>
  The two checks on \<open>text\<close>, in the order of the source. \<open>Inr (Some r)\<close> is an early
  return after writing \<open>r\<close>, \<open>Inr None\<close> falls through to the forwarding, \<open>Inl e\<close> is
  a throw. \<open>undefined > 5000\<close> is false.
\<close>

definition analyze_checks :: "jsval \<Rightarrow> js_error + http_response option" where
  "analyze_checks text =
     (if \<not> truthy text
      then Inr (Some (error_json 400 (lit ''Text is required and cannot be empty'') None))
      else case call_trim text of
        Inl e \<Rightarrow> Inl e
      | Inr t \<Rightarrow>
          if length t = 0
          then Inr (Some (error_json 400 (lit ''Text is required and cannot be empty'') None))
          else if (case js_length text of None \<Rightarrow> False | Some n \<Rightarrow> n > 5000)
          then Inr (Some (error_json 400 (lit ''Text too long. Maximum 5000 characters allowed.'') None))
          else Inr None)"

definition analyze_call :: "jsstring \<Rightarrow> jsstring \<Rightarrow> outbound" where
  "analyze_call base t =
     \<lparr>verb = POST, url = base @ lit ''/analyze'',
      data = Some (JObj [(lit ''text'', JStr t)]), timeout = 30000,
      headers = [(lit ''Content-Type'', lit ''application/json'')]\<rparr>"

text \<open>
  Converting a value to a string inside a template literal throws a TypeError for an
  object whose own property \<open>toString\<close> hides the inherited method (no value of a parsed
  body is a function), and for an array with such an element.
\<close>

fun to_string_throws :: "jsval \<Rightarrow> bool" where
  "to_string_throws (JObj kvs) = (map_of kvs (lit ''toString'') \<noteq> None)"
| "to_string_throws (JArr xs) = list_ex to_string_throws xs"
| "to_string_throws v = False"

text \<open>
  The log line after a successful call reads \<open>response.data.sentiment\<close> and calls
  \<open>response.data.confidence.toFixed(4)\<close>: it throws a TypeError when the data is
  \<open>undefined\<close> or \<open>null\<close>, when the sentiment cannot be converted to a string, or when
  the confidence is not a number.
\<close>

definition log_analysis_throws :: "jsval \<Rightarrow> bool" where
  "log_analysis_throws d =
     (case get_prop d (lit ''sentiment'') of
        Inl e \<Rightarrow> True
      | Inr s \<Rightarrow>
          to_string_throws s \<or>
          (case get_prop d (lit ''confidence'') of Inr (JNum c) \<Rightarrow> False | _ \<Rightarrow> True))"

text \<open>The body of the \<open>try\<close> block: what it returns or throws, and the calls it made.\<close>

definition analyze_try ::
  "jsstring \<Rightarrow> axios \<Rightarrow> jsval \<Rightarrow> (js_error + http_response) \<times> outbound list" where
  "analyze_try base ax reqbody =
     (case get_prop reqbody (lit ''text'') of
        Inl e \<Rightarrow> (Inl e, [])
      | Inr text \<Rightarrow>
          (case analyze_checks text of
             Inl e \<Rightarrow> (Inl e, [])
           | Inr (Some r) \<Rightarrow> (Inr r, [])
           | Inr None \<Rightarrow>
               (case call_trim text of
                  Inl e \<Rightarrow> (Inl e, [])
                | Inr t \<Rightarrow>
                    (let c = analyze_call base t in
                     case ax c of
                       Inl e \<Rightarrow> (Inl e, [c])
                     | Inr d \<Rightarrow>
                         if log_analysis_throws d then (Inl type_error, [c])
                         else (Inr (res_json d), [c])))))"

text \<open>The \<open>catch\<close> block.\<close>

definition analyze_catch :: "js_error \<Rightarrow> http_response" where
  "analyze_catch e =
     (if code e = Some (lit ''ECONNREFUSED'')
      then error_json 503 (lit ''AI service is currently unavailable. Please try again later.'')
             (Some (JStr (lit ''Unable to connect to sentiment analysis service'')))
      else case response e of
        Some (st, d) \<Rightarrow> error_json st (lit ''AI service error'') (Some d)
      | None \<Rightarrow>
          if code e = Some (lit ''ENOTFOUND'')
          then error_json 503 (lit ''AI service configuration error'')
                 (Some (JStr (lit ''Cannot resolve AI service hostname'')))
          else error_json 500 (lit ''Internal server error'')
                 (Some (JStr (lit ''An unexpected error occurred while processing your request''))))"

definition analyze_handler :: "jsstring \<Rightarrow> axios \<Rightarrow> jsval \<Rightarrow> http_response \<times> outbound list" where
  "analyze_handler base ax reqbody =
     (case analyze_try base ax reqbody of
        (Inl e, calls) \<Rightarrow> (analyze_catch e, calls)
      | (Inr r, calls) \<Rightarrow> (r, calls))"

subsection \<open>POST /api/batch-analyze\<close>

text \<open>\<open>typeof v !== 'string' || v.trim().length === 0\<close>; the second operand is only
  evaluated on a string.\<close>

definition invalid_text :: "jsval \<Rightarrow> bool" where
  "invalid_text v = (not_string v \<or> (case call_trim v of Inl e \<Rightarrow> True | Inr t \<Rightarrow> length t = 0))"

text \<open>The loop over the indices, from \<open>i\<close>; it returns at the first invalid element.\<close>

function validate_each :: "jsval list \<Rightarrow> nat \<Rightarrow> http_response option" where
  "validate_each texts i =
     (if i < length texts
      then if invalid_text (texts ! i)
           then Some (error_json 400
                  (lit ''Text at index '' @ decimal i @ lit '' is invalid or empty'') None)
           else validate_each texts (i + 1)
      else None)"
  by pat_completeness auto
termination
  by (relation "measure (\<lambda>(texts, i). length texts - i)") auto

declare validate_each.simps [simp del]

fun batch_checks :: "jsval \<Rightarrow> http_response option" where
  "batch_checks (JArr texts) =
     (if length texts = 0
      then Some (error_json 400 (lit ''Texts array is required and cannot be empty'') None)
      else if length texts > 100
      then Some (error_json 400 (lit ''Too many texts. Maximum 100 texts allowed per batch.'') None)
      else validate_each texts 0)"
| "batch_checks v =
     Some (error_json 400 (lit ''Texts array is required and cannot be empty'') None)"

text \<open>\<open>texts.map(text => text.trim())\<close>.\<close>

fun trim_all :: "jsval list \<Rightarrow> js_error + jsval list" where
  "trim_all [] = Inr []"
| "trim_all (v # vs) =
     (case call_trim v of
        Inl e \<Rightarrow> Inl e
      | Inr t \<Rightarrow> (case trim_all vs of Inl e \<Rightarrow> Inl e | Inr ts \<Rightarrow> Inr (JStr t # ts)))"

fun elements :: "jsval \<Rightarrow> jsval list" where
  "elements (JArr xs) = xs"
| "elements v = []"

definition batch_call :: "jsstring \<Rightarrow> jsval list \<Rightarrow> outbound" where
  "batch_call base ts =
     \<lparr>verb = POST, url = base @ lit ''/batch-analyze'',
      data = Some (JObj [(lit ''texts'', JArr ts)]), timeout = 60000,
      headers = [(lit ''Content-Type'', lit ''application/json'')]\<rparr>"

definition batch_try ::
  "jsstring \<Rightarrow> axios \<Rightarrow> jsval \<Rightarrow> (js_error + http_response) \<times> outbound list" where
  "batch_try base ax reqbody =
     (case get_prop reqbody (lit ''texts'') of
        Inl e \<Rightarrow> (Inl e, [])
      | Inr texts \<Rightarrow>
          (case batch_checks texts of
             Some r \<Rightarrow> (Inr r, [])
           | None \<Rightarrow>
               (case trim_all (elements texts) of
                  Inl e \<Rightarrow> (Inl e, [])
                | Inr ts \<Rightarrow>
                    (let c = batch_call base ts in
                     case ax c of
                       Inl e \<Rightarrow> (Inl e, [c])
                     | Inr d \<Rightarrow> (Inr (res_json d), [c])))))"

definition batch_catch :: "js_error \<Rightarrow> http_response" where
  "batch_catch e =
     (if code e = Some (lit ''ECONNREFUSED'')
      then error_json 503 (lit ''AI service is currently unavailable. Please try again later.'')
             (Some (JStr (lit ''Unable to connect to sentiment analysis service'')))
      else case response e of
        Some (st, d) \<Rightarrow> error_json st (lit ''AI service error'') (Some d)
      | None \<Rightarrow>
          error_json 500 (lit ''Internal server error'')
            (Some (JStr (lit ''An unexpected error occurred while processing batch request''))))"

definition batch_handler :: "jsstring \<Rightarrow> axios \<Rightarrow> jsval \<Rightarrow> http_response \<times> outbound list" where
  "batch_handler base ax reqbody =
     (case batch_try base ax reqbody of
        (Inl e, calls) \<Rightarrow> (batch_catch e, calls)
      | (Inr r, calls) \<Rightarrow> (r, calls))"

subsection \<open>Sample upstream behaviours\<close>

text \<open>The default upstream address of the source, and five behaviours of the outbound
  call: connection refused, host name not resolved, an upstream 422, an upstream 304
  (which axios rejects without an error code) and an upstream answer.\<close>

definition default_url :: jsstring where
  "default_url = lit ''http://localhost:8000''"

definition upstream_refusing :: axios where
  "upstream_refusing c =
     Inl \<lparr>code = Some (lit ''ECONNREFUSED''), response = None,
          message = lit ''connect ECONNREFUSED 127.0.0.1:8000''\<rparr>"

definition upstream_unresolvable :: axios where
  "upstream_unresolvable c =
     Inl \<lparr>code = Some (lit ''ENOTFOUND''), response = None,
          message = lit ''getaddrinfo ENOTFOUND sentiment-service''\<rparr>"

definition upstream_rejecting :: axios where
  "upstream_rejecting c =
     Inl \<lparr>code = Some (lit ''ERR_BAD_REQUEST''),
          response = Some (422, JObj [(lit ''detail'', JStr (lit ''Unprocessable''))]),
          message = lit ''Request failed with status code 422''\<rparr>"

definition upstream_not_modified :: axios where
  "upstream_not_modified c =
     Inl \<lparr>code = None, response = Some (304, JStr []),
          message = lit ''Request failed with status code 304''\<rparr>"

definition upstream_answering :: axios where
  "upstream_answering c =
     Inr (JObj [(lit ''sentiment'', JStr (lit ''POSITIVE'')), (lit ''confidence'', JNum (9998 / 10000))])"

section \<open>Properties\<close>

subsection \<open>Literals and trimming\<close>

lemma of_char_lt: "(of_char a :: nat) < 2 ^ 16"
proof -
  have "(of_char a :: nat) mod 256 < 256" by simp
  then have "(of_char a :: nat) < 256" by (simp only: of_char_mod_256)
  moreover have "(256::nat) < 2 ^ 16" by simp
  ultimately show ?thesis by (rule less_trans)
qed

lemma of_char_word_inj: "(of_nat (of_char a) :: 16 word) = of_nat (of_char b) \<longleftrightarrow> a = b"
  using of_char_lt [of a] of_char_lt [of b]
  by (auto simp add: word_of_nat_eq_iff take_bit_nat_eq_self)

lemma lit_eq_iff [simp]: "lit a = lit b \<longleftrightarrow> a = b"
  unfolding lit_def
proof (induction a arbitrary: b)
  case Nil then show ?case by auto
next
  case (Cons x xs)
  then show ?case by (cases b) (auto simp: of_char_word_inj)
qed

lemma trim_blank:
  assumes "\<forall>c\<in>set s. is_white_space c"
  shows "trim s = []"
proof -
  have "dropWhile is_white_space s = []"
    using assms by simp
  then show ?thesis
    unfolding trim_def by (simp only: rev.simps dropWhile.simps)
qed

lemma trim_id:
  assumes "s \<noteq> []" "\<not> is_white_space (hd s)" "\<not> is_white_space (last s)"
  shows "trim s = s"
proof -
  have a: "dropWhile is_white_space s = s"
    using assms by (simp add: dropWhile_eq_self_iff)
  have "dropWhile is_white_space (rev s) = rev s"
    using assms by (simp add: dropWhile_eq_self_iff hd_rev)
  with a show ?thesis by (simp add: trim_def)
qed

subsection \<open>The analyze handler, branch by branch\<close>

lemma trim_Nil [simp]: "trim [] = []"
  by (simp add: trim_def)

lemma analyze_checks_string:
  "analyze_checks (JStr s) =
     (if trim s = []
      then Inr (Some (error_json 400 (lit ''Text is required and cannot be empty'') None))
      else if 5000 < length s
      then Inr (Some (error_json 400 (lit ''Text too long. Maximum 5000 characters allowed.'') None))
      else Inr None)"
  by (cases "s = []") (simp_all add: analyze_checks_def)

lemma analyze_checks_non_string:
  "truthy v \<Longrightarrow> not_string v \<Longrightarrow> analyze_checks v = Inl type_error"
  by (cases v) (simp_all add: analyze_checks_def)

lemma analyze_handler_rejected:
  "get_prop reqbody (lit ''text'') = Inr t \<Longrightarrow> analyze_checks t = Inr (Some r) \<Longrightarrow>
   analyze_handler base ax reqbody = (r, [])"
  by (simp add: analyze_handler_def analyze_try_def)

lemma analyze_handler_thrown:
  "get_prop reqbody (lit ''text'') = Inr t \<Longrightarrow> analyze_checks t = Inl e \<Longrightarrow>
   analyze_handler base ax reqbody = (analyze_catch e, [])"
  by (simp add: analyze_handler_def analyze_try_def)

lemma analyze_handler_forwarded:
  "get_prop reqbody (lit ''text'') = Inr (JStr s) \<Longrightarrow> analyze_checks (JStr s) = Inr None \<Longrightarrow>
   analyze_handler base ax reqbody =
     (case ax (analyze_call base (trim s)) of
        Inl e \<Rightarrow> analyze_catch e
      | Inr d \<Rightarrow> if log_analysis_throws d then analyze_catch type_error else res_json d,
      [analyze_call base (trim s)])"
  by (simp add: analyze_handler_def analyze_try_def Let_def split: sum.splits)

lemma analyze_catch_type_error:
  "analyze_catch type_error =
     error_json 500 (lit ''Internal server error'')
       (Some (JStr (lit ''An unexpected error occurred while processing your request'')))"
  by (simp add: analyze_catch_def type_error_def)

subsection \<open>Claims about POST /api/analyze\<close>

text \<open>
  C5. Whenever the \<open>text\<close> field of the request body is a string whose trimmed form
  has length 0, the handler answers HTTP 400 with the body
  \<open>{"error": "Text is required and cannot be empty"}\<close> (no \<open>details\<close>) and makes
  no outbound call, whatever the upstream would do.
\<close>

theorem analyze_blank_text:
  assumes "get_prop reqbody (lit ''text'') = Inr (JStr s)" and "length (trim s) = 0"
  shows "analyze_handler base ax reqbody =
           (\<lparr>status = 400,
             body = ErrorJson \<lparr>error = lit ''Text is required and cannot be empty'',
                               details = None\<rparr>\<rparr>, [])"
proof -
  have "analyze_checks (JStr s) =
          Inr (Some (error_json 400 (lit ''Text is required and cannot be empty'') None))"
    using assms(2) by (simp add: analyze_checks_string)
  from analyze_handler_rejected [OF assms(1) this]
  show ?thesis by (simp add: error_json_def no_body_status_def)
qed

text \<open>The theorem at the text of two spaces.\<close>

theorem analyze_blank_text_witness:
  "length (trim (lit ''  '')) = 0 \<and>
   analyze_handler default_url upstream_answering (JObj [(lit ''text'', JStr (lit ''  ''))]) =
     (\<lparr>status = 400,
       body = ErrorJson \<lparr>error = lit ''Text is required and cannot be empty'',
                         details = None\<rparr>\<rparr>, [])"
proof -
  have a: "get_prop (JObj [(lit ''text'', JStr (lit ''  ''))]) (lit ''text'') = Inr (JStr (lit ''  ''))"
    by simp
  have b: "length (trim (lit ''  '')) = 0"
    by (simp add: trim_def lit_def is_white_space_def)
  from analyze_blank_text [OF a b] b show ?thesis by simp
qed

text \<open>
  C1, as amended. Whenever the \<open>text\<close> field is a string of more than 5000 code units
  whose trimmed form is not empty, the handler answers HTTP 400 with the error
  \<open>Text too long. Maximum 5000 characters allowed.\<close> and makes no outbound call.
  The emptiness check of the source comes first, so the trimmed length does matter.
\<close>

theorem analyze_too_long:
  assumes "get_prop reqbody (lit ''text'') = Inr (JStr s)"
    and "5000 < length s" and "0 < length (trim s)"
  shows "analyze_handler base ax reqbody =
           (\<lparr>status = 400,
             body = ErrorJson \<lparr>error = lit ''Text too long. Maximum 5000 characters allowed.'',
                               details = None\<rparr>\<rparr>, [])"
proof -
  have "analyze_checks (JStr s) =
          Inr (Some (error_json 400 (lit ''Text too long. Maximum 5000 characters allowed.'') None))"
    using assms(2,3) by (simp add: analyze_checks_string)
  from analyze_handler_rejected [OF assms(1) this]
  show ?thesis by (simp add: error_json_def no_body_status_def)
qed

text \<open>The theorem at the text of 5001 letters \<open>a\<close>.\<close>

theorem analyze_too_long_witness:
  "5000 < length (replicate 5001 (0x61 :: 16 word)) \<and>
   0 < length (trim (replicate 5001 0x61)) \<and>
   analyze_handler default_url upstream_answering
       (JObj [(lit ''text'', JStr (replicate 5001 0x61))]) =
     (\<lparr>status = 400,
       body = ErrorJson \<lparr>error = lit ''Text too long. Maximum 5000 characters allowed.'',
                         details = None\<rparr>\<rparr>, [])"
proof -
  let ?s = "replicate 5001 (0x61 :: 16 word)"
  have a: "get_prop (JObj [(lit ''text'', JStr ?s)]) (lit ''text'') = Inr (JStr ?s)"
    by simp
  have b: "5000 < length ?s" by simp
  have "trim ?s = ?s"
    by (rule trim_id) (simp_all add: is_white_space_def)
  then have c: "0 < length (trim ?s)" by simp
  from analyze_too_long [OF a b c] b c show ?thesis by simp
qed

text \<open>
  C1 as stated fails: a text of 5001 spaces is longer than 5000 and is answered with
  the empty-text error, not with the too-long error.
\<close>

theorem blank_text_over_limit_counterexample:
  "5000 < length (replicate 5001 (0x20 :: 16 word)) \<and>
   fst (analyze_handler default_url upstream_answering
       (JObj [(lit ''text'', JStr (replicate 5001 0x20))])) =
     \<lparr>status = 400,
      body = ErrorJson \<lparr>error = lit ''Text is required and cannot be empty'',
                        details = None\<rparr>\<rparr> \<and>
   fst (analyze_handler default_url upstream_answering
       (JObj [(lit ''text'', JStr (replicate 5001 0x20))])) \<noteq>
     \<lparr>status = 400,
      body = ErrorJson \<lparr>error = lit ''Text too long. Maximum 5000 characters allowed.'',
                        details = None\<rparr>\<rparr>"
proof -
  let ?s = "replicate 5001 (0x20 :: 16 word)"
  have "trim ?s = []"
    by (rule trim_blank) (simp add: is_white_space_def)
  then have "analyze_checks (JStr ?s) =
          Inr (Some (error_json 400 (lit ''Text is required and cannot be empty'') None))"
    by (simp add: analyze_checks_string)
  then have "analyze_handler default_url upstream_answering (JObj [(lit ''text'', JStr ?s)]) =
          (error_json 400 (lit ''Text is required and cannot be empty'') None, [])"
    by (intro analyze_handler_rejected) simp_all
  then show ?thesis by (simp add: error_json_def no_body_status_def)
qed

text \<open>
  C9. Whenever the \<open>text\<close> field is truthy and not a string, the checks do not return
  a 400 response: the call of \<open>trim\<close> throws a TypeError, which has neither the code
  \<open>ECONNREFUSED\<close> nor a response nor the code \<open>ENOTFOUND\<close>, and the handler answers
  HTTP 500 with the error \<open>Internal server error\<close> without any outbound call.
\<close>

theorem analyze_non_string_text:
  assumes "get_prop reqbody (lit ''text'') = Inr v" and "truthy v" and "not_string v"
  shows "analyze_checks v = Inl type_error \<and>
         code type_error \<noteq> Some (lit ''ECONNREFUSED'') \<and> response type_error = None \<and>
         code type_error \<noteq> Some (lit ''ENOTFOUND'') \<and>
         analyze_handler base ax reqbody =
           (\<lparr>status = 500,
             body = ErrorJson \<lparr>error = lit ''Internal server error'',
                 details = Some (JStr (lit ''An unexpected error occurred while processing your request''))\<rparr>\<rparr>,
            [])"
proof -
  have a: "analyze_checks v = Inl type_error"
    using assms(2,3) by (rule analyze_checks_non_string)
  from analyze_handler_thrown [OF assms(1) a]
  show ?thesis
    using a by (simp add: analyze_catch_type_error error_json_def no_body_status_def) (simp add: type_error_def)
qed

text \<open>The theorem at the number 42 and at the empty object.\<close>

theorem analyze_non_string_text_witness:
  "truthy (JNum 42) \<and> not_string (JNum 42) \<and>
   analyze_handler default_url upstream_answering (JObj [(lit ''text'', JNum 42)]) =
     (\<lparr>status = 500,
       body = ErrorJson \<lparr>error = lit ''Internal server error'',
           details = Some (JStr (lit ''An unexpected error occurred while processing your request''))\<rparr>\<rparr>,
      []) \<and>
   truthy (JObj []) \<and> not_string (JObj []) \<and>
   analyze_handler default_url upstream_answering (JObj [(lit ''text'', JObj [])]) =
     (\<lparr>status = 500,
       body = ErrorJson \<lparr>error = lit ''Internal server error'',
           details = Some (JStr (lit ''An unexpected error occurred while processing your request''))\<rparr>\<rparr>,
      [])"
proof -
  have a: "get_prop (JObj [(lit ''text'', JNum 42)]) (lit ''text'') = Inr (JNum 42)"
    by simp
  have b: "get_prop (JObj [(lit ''text'', JObj [])]) (lit ''text'') = Inr (JObj [])"
    by simp
  from analyze_non_string_text [OF a] analyze_non_string_text [OF b]
  show ?thesis by simp
qed

subsection \<open>Claim about GET /api/health\<close>

text \<open>
  C7. When the upstream health call resolves, the handler answers HTTP 200 with
  \<open>web_service\<close> equal to \<open>healthy\<close> and the upstream data in \<open>ai_service\<close>; when it
  rejects, the handler answers HTTP 503 with \<open>web_service\<close> still \<open>healthy\<close>,
  \<open>ai_service\<close> equal to \<open>unavailable\<close> and the message of the failure in \<open>error\<close>. In
  every case the \<open>web_service\<close> field of the response is \<open>healthy\<close>.
\<close>

theorem api_health_web_service_healthy:
  "(ax (health_call base) = Inr d \<longrightarrow>
      api_health_handler base ax =
        (\<lparr>status = 200,
          body = HealthJson \<lparr>web_service = lit ''healthy'', ai_service = d,
                             CombinedHealthResponse.error = None\<rparr>\<rparr>, [health_call base])) \<and>
   (ax' (health_call base) = Inl e \<longrightarrow>
      api_health_handler base ax' =
        (\<lparr>status = 503,
          body = HealthJson \<lparr>web_service = lit ''healthy'',
                             ai_service = JStr (lit ''unavailable''),
                             CombinedHealthResponse.error = Some (message e)\<rparr>\<rparr>, [health_call base])) \<and>
   (\<exists>h. body (fst (api_health_handler base ax'')) = HealthJson h \<and> web_service h = lit ''healthy'')"
  by (cases "ax'' (health_call base)") (simp_all add: api_health_handler_def Let_def)

text \<open>The theorem at an upstream that answers and at one that refuses the connection.\<close>

theorem api_health_web_service_healthy_witness:
  "api_health_handler default_url upstream_answering =
     (\<lparr>status = 200,
       body = HealthJson \<lparr>web_service = lit ''healthy'',
           ai_service = JObj [(lit ''sentiment'', JStr (lit ''POSITIVE'')), (lit ''confidence'', JNum (9998 / 10000))],
           CombinedHealthResponse.error = None\<rparr>\<rparr>, [health_call default_url]) \<and>
   api_health_handler default_url upstream_refusing =
     (\<lparr>status = 503,
       body = HealthJson \<lparr>web_service = lit ''healthy'',
                          ai_service = JStr (lit ''unavailable''),
                          CombinedHealthResponse.error = Some (lit ''connect ECONNREFUSED 127.0.0.1:8000'')\<rparr>\<rparr>,
      [health_call default_url])"
  using api_health_web_service_healthy [of upstream_answering default_url
      "JObj [(lit ''sentiment'', JStr (lit ''POSITIVE'')), (lit ''confidence'', JNum (9998 / 10000))]"
      upstream_refusing
      "\<lparr>code = Some (lit ''ECONNREFUSED''), response = None,
        message = lit ''connect ECONNREFUSED 127.0.0.1:8000''\<rparr>"]
  by (simp add: upstream_answering_def upstream_refusing_def)

subsection \<open>The batch handler, branch by branch\<close>

lemma invalid_text_string: "invalid_text (JStr s) \<longleftrightarrow> trim s = []"
  by (simp add: invalid_text_def)

lemma invalid_text_iff:
  "invalid_text v \<longleftrightarrow> not_string v \<or> (\<exists>s. v = JStr s \<and> length (trim s) = 0)"
  by (cases v) (simp_all add: invalid_text_def)

lemma validate_each_first:
  "i \<le> k \<Longrightarrow> k < length texts \<Longrightarrow> invalid_text (texts ! k) \<Longrightarrow>
   (\<And>j. i \<le> j \<Longrightarrow> j < k \<Longrightarrow> \<not> invalid_text (texts ! j)) \<Longrightarrow>
   validate_each texts i =
     Some (error_json 400 (lit ''Text at index '' @ decimal k @ lit '' is invalid or empty'') None)"
proof (induction texts i rule: validate_each.induct)
  case (1 texts i)
  show ?case
  proof (cases "i = k")
    case True
    with "1.prems" show ?thesis
      by (simp add: validate_each.simps [of texts k])
  next
    case False
    with "1.prems" have lt: "i < k" and ok: "\<not> invalid_text (texts ! i)"
      by simp_all
    from lt "1.prems"(2) have "i < length texts" by simp
    moreover have "validate_each texts (i + 1) =
        Some (error_json 400 (lit ''Text at index '' @ decimal k @ lit '' is invalid or empty'') None)"
      using "1.prems" lt ok \<open>i < length texts\<close>
      by (intro "1.IH") simp_all
    ultimately show ?thesis
      using ok by (simp add: validate_each.simps [of texts i])
  qed
qed

lemma validate_each_none:
  "(\<And>j. i \<le> j \<Longrightarrow> j < length texts \<Longrightarrow> \<not> invalid_text (texts ! j)) \<Longrightarrow>
   validate_each texts i = None"
proof (induction texts i rule: validate_each.induct)
  case (1 texts i)
  show ?case
  proof (cases "i < length texts")
    case True
    then have ok: "\<not> invalid_text (texts ! i)"
      using "1.prems" by simp
    have "validate_each texts (i + 1) = None"
      using True ok "1.prems" by (intro "1.IH") simp_all
    then show ?thesis
      using True ok by (simp add: validate_each.simps [of texts i])
  next
    case False
    then show ?thesis by (simp add: validate_each.simps [of texts i])
  qed
qed

lemma trim_all_strings: "trim_all (map JStr ss) = Inr (map (\<lambda>s. JStr (trim s)) ss)"
  by (induction ss) simp_all

lemma batch_handler_rejected:
  "get_prop reqbody (lit ''texts'') = Inr t \<Longrightarrow> batch_checks t = Some r \<Longrightarrow>
   batch_handler base ax reqbody = (r, [])"
  by (simp add: batch_handler_def batch_try_def)

lemma batch_handler_forwarded:
  "get_prop reqbody (lit ''texts'') = Inr (JArr (map JStr ss)) \<Longrightarrow>
   batch_checks (JArr (map JStr ss)) = None \<Longrightarrow>
   batch_handler base ax reqbody =
     (case ax (batch_call base (map (\<lambda>s. JStr (trim s)) ss)) of
        Inl e \<Rightarrow> batch_catch e
      | Inr d \<Rightarrow> res_json d,
      [batch_call base (map (\<lambda>s. JStr (trim s)) ss)])"
  by (simp add: batch_handler_def batch_try_def trim_all_strings Let_def split: sum.splits)

lemma batch_checks_strings:
  assumes "1 \<le> length ss" and "length ss \<le> 100" and "\<forall>s\<in>set ss. trim s \<noteq> []"
  shows "batch_checks (JArr (map JStr ss)) = None"
proof -
  have "validate_each (map JStr ss) 0 = None"
    using assms(3) by (intro validate_each_none) (simp add: invalid_text_string)
  then show ?thesis using assms(1,2) by (cases ss) simp_all
qed

subsection \<open>Claims about POST /api/batch-analyze\<close>

text \<open>
  C3. For a \<open>texts\<close> array of 1 to 100 elements, if the element at index \<open>i\<close> is not a
  string or is empty after trimming, and no element before it is, the handler answers
  HTTP 400 with the error \<open>Text at index i is invalid or empty\<close> for that first index
  \<open>i\<close>, whatever the later elements are, and makes no outbound call.
\<close>

theorem batch_first_invalid_index:
  assumes "get_prop reqbody (lit ''texts'') = Inr (JArr texts)"
    and "length texts \<le> 100"
    and "i < length texts"
    and "invalid_text (texts ! i)"
    and "\<forall>j<i. \<not> invalid_text (texts ! j)"
  shows "batch_handler base ax reqbody =
           (\<lparr>status = 400,
             body = ErrorJson
               \<lparr>error = lit ''Text at index '' @ decimal i @ lit '' is invalid or empty'',
                details = None\<rparr>\<rparr>, [])"
proof -
  have "validate_each texts 0 =
      Some (error_json 400 (lit ''Text at index '' @ decimal i @ lit '' is invalid or empty'') None)"
    using assms(3,4,5) by (intro validate_each_first) simp_all
  then have "batch_checks (JArr texts) =
      Some (error_json 400 (lit ''Text at index '' @ decimal i @ lit '' is invalid or empty'') None)"
    using assms(2,3) by auto
  from batch_handler_rejected [OF assms(1) this]
  show ?thesis by (simp add: error_json_def no_body_status_def)
qed

text \<open>The theorem at \<open>["ok", "", "  "]\<close>: the elements at indices 1 and 2 are both
  invalid and index 1 is reported.\<close>

theorem batch_first_invalid_index_witness:
  "invalid_text ([JStr (lit ''ok''), JStr (lit ''''), JStr (lit ''  '')] ! 1) \<and>
   invalid_text ([JStr (lit ''ok''), JStr (lit ''''), JStr (lit ''  '')] ! 2) \<and>
   \<not> invalid_text ([JStr (lit ''ok''), JStr (lit ''''), JStr (lit ''  '')] ! 0) \<and>
   batch_handler default_url upstream_answering
       (JObj [(lit ''texts'', JArr [JStr (lit ''ok''), JStr (lit ''''), JStr (lit ''  '')])]) =
     (\<lparr>status = 400,
       body = ErrorJson \<lparr>error = lit ''Text at index 1 is invalid or empty'',
                         details = None\<rparr>\<rparr>, [])"
proof -
  let ?texts = "[JStr (lit ''ok''), JStr (lit ''''), JStr (lit ''  '')]"
  have a: "get_prop (JObj [(lit ''texts'', JArr ?texts)]) (lit ''texts'') = Inr (JArr ?texts)"
    by simp
  have b: "length ?texts \<le> 100" and c: "1 < length ?texts"
    by simp_all
  have d: "invalid_text (?texts ! 1)"
    by (simp add: invalid_text_string lit_def)
  have d2: "invalid_text (?texts ! 2)"
    by (simp add: invalid_text_string lit_def trim_def is_white_space_def)
  have e: "\<forall>j<1. \<not> invalid_text (?texts ! j)"
    by (simp add: invalid_text_string lit_def trim_def is_white_space_def)
  have f: "lit ''Text at index '' @ decimal 1 @ lit '' is invalid or empty'' =
           lit ''Text at index 1 is invalid or empty''"
    by (simp add: decimal.simps lit_def)
  have e0: "\<not> invalid_text (?texts ! 0)"
    using e by simp
  from batch_first_invalid_index [OF a b c d e] d d2 e0 f
  show ?thesis by simp
qed

text \<open>
  C4. An empty \<open>texts\<close> array is answered with the empty-array error and an array of
  more than 100 elements with the too-many error, both HTTP 400 without an outbound call.
  An array of 1 to 100 strings that are all non-empty after trimming passes the checks,
  and the one outbound call carries the trimmed strings, in the same number and order.
\<close>

theorem batch_length_bounds:
  "(get_prop b0 (lit ''texts'') = Inr (JArr []) \<longrightarrow>
      batch_handler base ax b0 =
        (\<lparr>status = 400,
          body = ErrorJson \<lparr>error = lit ''Texts array is required and cannot be empty'',
                            details = None\<rparr>\<rparr>, [])) \<and>
   (get_prop b1 (lit ''texts'') = Inr (JArr texts) \<and> 100 < length texts \<longrightarrow>
      batch_handler base ax b1 =
        (\<lparr>status = 400,
          body = ErrorJson \<lparr>error = lit ''Too many texts. Maximum 100 texts allowed per batch.'',
                            details = None\<rparr>\<rparr>, [])) \<and>
   (get_prop b2 (lit ''texts'') = Inr (JArr (map JStr ss)) \<and>
    1 \<le> length ss \<and> length ss \<le> 100 \<and> (\<forall>s\<in>set ss. 0 < length (trim s)) \<longrightarrow>
      batch_checks (JArr (map JStr ss)) = None \<and>
      snd (batch_handler base ax b2) = [batch_call base (map (\<lambda>s. JStr (trim s)) ss)] \<and>
      data (batch_call base (map (\<lambda>s. JStr (trim s)) ss)) =
        Some (JObj [(lit ''texts'', JArr (map (\<lambda>s. JStr (trim s)) ss))]))"
proof (intro conjI impI)
  assume "get_prop b0 (lit ''texts'') = Inr (JArr [])"
  then show "batch_handler base ax b0 =
        (\<lparr>status = 400,
          body = ErrorJson \<lparr>error = lit ''Texts array is required and cannot be empty'',
                            details = None\<rparr>\<rparr>, [])"
    by (simp add: batch_handler_rejected error_json_def no_body_status_def)
next
  assume h: "get_prop b1 (lit ''texts'') = Inr (JArr texts) \<and> 100 < length texts"
  then have "batch_checks (JArr texts) =
      Some (error_json 400 (lit ''Too many texts. Maximum 100 texts allowed per batch.'') None)"
    by auto
  with h show "batch_handler base ax b1 =
        (\<lparr>status = 400,
          body = ErrorJson \<lparr>error = lit ''Too many texts. Maximum 100 texts allowed per batch.'',
                            details = None\<rparr>\<rparr>, [])"
    by (simp add: batch_handler_rejected error_json_def no_body_status_def)
next
  assume h: "get_prop b2 (lit ''texts'') = Inr (JArr (map JStr ss)) \<and>
    1 \<le> length ss \<and> length ss \<le> 100 \<and> (\<forall>s\<in>set ss. 0 < length (trim s))"
  then show c: "batch_checks (JArr (map JStr ss)) = None"
    by (intro batch_checks_strings) simp_all
  from h c show "snd (batch_handler base ax b2) = [batch_call base (map (\<lambda>s. JStr (trim s)) ss)]"
    by (simp add: batch_handler_forwarded)
  show "data (batch_call base (map (\<lambda>s. JStr (trim s)) ss)) =
        Some (JObj [(lit ''texts'', JArr (map (\<lambda>s. JStr (trim s)) ss))])"
    by (simp add: batch_call_def)
qed

text \<open>The theorem at the empty array, at 101 texts and at \<open>[" good ", "bad"]\<close>.\<close>

theorem batch_length_bounds_witness:
  "batch_handler default_url upstream_answering (JObj [(lit ''texts'', JArr [])]) =
     (\<lparr>status = 400,
       body = ErrorJson \<lparr>error = lit ''Texts array is required and cannot be empty'',
                         details = None\<rparr>\<rparr>, []) \<and>
   100 < length (replicate 101 (JStr (lit ''ok''))) \<and>
   batch_handler default_url upstream_answering
       (JObj [(lit ''texts'', JArr (replicate 101 (JStr (lit ''ok''))))]) =
     (\<lparr>status = 400,
       body = ErrorJson \<lparr>error = lit ''Too many texts. Maximum 100 texts allowed per batch.'',
                         details = None\<rparr>\<rparr>, []) \<and>
   0 < length (trim (lit '' good '')) \<and> 0 < length (trim (lit ''bad'')) \<and>
   snd (batch_handler default_url upstream_answering
       (JObj [(lit ''texts'', JArr [JStr (lit '' good ''), JStr (lit ''bad'')])])) =
     [batch_call default_url [JStr (lit ''good''), JStr (lit ''bad'')]]"
proof -
  have t: "trim (lit '' good '') = lit ''good''" "trim (lit ''bad'') = lit ''bad''"
    by (simp_all add: trim_def lit_def is_white_space_def)
  have l: "lit ''good'' \<noteq> []" "lit ''bad'' \<noteq> []"
    by (simp_all add: lit_def)
  from batch_length_bounds [of "JObj [(lit ''texts'', JArr [])]" default_url upstream_answering
      "JObj [(lit ''texts'', JArr (replicate 101 (JStr (lit ''ok''))))]"
      "replicate 101 (JStr (lit ''ok''))"
      "JObj [(lit ''texts'', JArr [JStr (lit '' good ''), JStr (lit ''bad'')])]"
      "[lit '' good '', lit ''bad'']"]
  show ?thesis by (simp add: t l)
qed

text \<open>
  C10. The batch checks put no bound on the length of an element: an array of 1 to 100
  strings that are non-empty after trimming passes them and is forwarded, also when one
  of its strings is longer than 5000 code units, while the single-text route rejects
  that same string with the too-long error.
\<close>

theorem batch_no_element_cap:
  assumes "get_prop reqbody (lit ''texts'') = Inr (JArr (map JStr ss))"
    and "1 \<le> length ss" and "length ss \<le> 100"
    and "\<forall>s\<in>set ss. 0 < length (trim s)"
    and "s \<in> set ss" and "5000 < length s"
    and "get_prop reqbody' (lit ''text'') = Inr (JStr s)"
  shows "batch_checks (JArr (map JStr ss)) = None \<and>
         snd (batch_handler base ax reqbody) = [batch_call base (map (\<lambda>s. JStr (trim s)) ss)] \<and>
         analyze_handler base ax reqbody' =
           (\<lparr>status = 400,
             body = ErrorJson \<lparr>error = lit ''Text too long. Maximum 5000 characters allowed.'',
                               details = None\<rparr>\<rparr>, [])"
proof -
  have c: "batch_checks (JArr (map JStr ss)) = None"
    using assms(2,3,4) by (intro batch_checks_strings) simp_all
  have "trim s \<noteq> []"
    using assms(4,5) by auto
  then have "analyze_checks (JStr s) =
          Inr (Some (error_json 400 (lit ''Text too long. Maximum 5000 characters allowed.'') None))"
    using assms(6) by (simp add: analyze_checks_string)
  from analyze_handler_rejected [OF assms(7) this] c assms(1)
  show ?thesis by (simp add: batch_handler_forwarded error_json_def no_body_status_def)
qed

text \<open>The theorem at the array holding one text of 5001 letters \<open>a\<close>.\<close>

theorem batch_no_element_cap_witness:
  "5000 < length (replicate 5001 (0x61 :: 16 word)) \<and>
   snd (batch_handler default_url upstream_answering
       (JObj [(lit ''texts'', JArr [JStr (replicate 5001 0x61)])])) =
     [batch_call default_url [JStr (replicate 5001 0x61)]] \<and>
   analyze_handler default_url upstream_answering
       (JObj [(lit ''text'', JStr (replicate 5001 0x61))]) =
     (\<lparr>status = 400,
       body = ErrorJson \<lparr>error = lit ''Text too long. Maximum 5000 characters allowed.'',
                         details = None\<rparr>\<rparr>, [])"
proof -
  let ?s = "replicate 5001 (0x61 :: 16 word)"
  have t: "trim ?s = ?s"
    by (rule trim_id) (simp_all add: is_white_space_def)
  have a: "get_prop (JObj [(lit ''texts'', JArr [JStr ?s])]) (lit ''texts'') = Inr (JArr (map JStr [?s]))"
    by simp
  have b: "get_prop (JObj [(lit ''text'', JStr ?s)]) (lit ''text'') = Inr (JStr ?s)"
    by simp
  have c: "\<forall>s\<in>set [?s]. 0 < length (trim s)"
    by (simp only: list.set ball_simps t) simp
  have d: "5000 < length ?s" by simp
  from batch_no_element_cap [OF a _ _ c _ d b, of default_url upstream_answering] d
  show ?thesis by (simp add: t)
qed

subsection \<open>What the checks let through\<close>

lemma analyze_checks_passed: "analyze_checks t = Inr None \<Longrightarrow> \<exists>s. t = JStr s"
  by (cases t) (simp_all add: analyze_checks_def split: if_splits)

lemma analyze_checks_status: "analyze_checks t = Inr (Some r) \<Longrightarrow> status r = 400"
  by (cases t) (auto simp add: analyze_checks_def error_json_def no_body_status_def split: if_splits)

lemma validate_each_status: "validate_each texts i = Some r \<Longrightarrow> status r = 400"
proof (induction texts i rule: validate_each.induct)
  case (1 texts i)
  then show ?case
    by (simp add: validate_each.simps [of texts i] error_json_def no_body_status_def split: if_splits) auto
qed

lemma validate_each_passed:
  "validate_each texts i = None \<Longrightarrow> i \<le> j \<Longrightarrow> j < length texts \<Longrightarrow> \<not> invalid_text (texts ! j)"
proof (induction texts i rule: validate_each.induct)
  case (1 texts i)
  from "1.prems" have lt: "i < length texts" by simp
  from "1.prems"(1) lt have ok: "\<not> invalid_text (texts ! i)"
    by (simp add: validate_each.simps [of texts i] split: if_splits)
  from "1.prems"(1) lt ok have rest: "validate_each texts (i + 1) = None"
    by (simp add: validate_each.simps [of texts i])
  show ?case
  proof (cases "j = i")
    case True
    with ok show ?thesis by simp
  next
    case False
    with "1.prems" have "i + 1 \<le> j" by simp
    with "1.IH" [OF lt ok rest] "1.prems"(3) show ?thesis by simp
  qed
qed

lemma batch_checks_status: "batch_checks t = Some r \<Longrightarrow> status r = 400"
  by (cases t) (auto simp add: error_json_def no_body_status_def validate_each_status split: if_splits)

lemma batch_checks_passed:
  assumes "batch_checks t = None"
  shows "\<exists>ss. t = JArr (map JStr ss)"
proof -
  from assms obtain texts where t: "t = JArr texts"
    by (cases t) simp_all
  with assms have v: "validate_each texts 0 = None"
    by (simp split: if_splits)
  have "\<forall>x\<in>set texts. \<exists>s. x = JStr s"
  proof
    fix x assume "x \<in> set texts"
    then obtain j where j: "j < length texts" "texts ! j = x"
      by (auto simp add: in_set_conv_nth)
    from validate_each_passed [OF v _ j(1)] j(2) have "\<not> invalid_text x" by simp
    then show "\<exists>s. x = JStr s"
      by (cases x) (simp_all add: invalid_text_def)
  qed
  then have "\<exists>ss. texts = map JStr ss"
  proof (induction texts)
    case Nil
    then show ?case by simp
  next
    case (Cons x xs)
    then obtain s ss where "x = JStr s" "xs = map JStr ss" by auto
    then have "x # xs = map JStr (s # ss)" by simp
    then show ?case by (rule exI)
  qed
  with t show ?thesis by auto
qed

subsection \<open>Claims about both forwarding routes\<close>

text \<open>
  C8. On both routes, when the checks end in an early return the response written is
  that HTTP 400 response and the handler makes no outbound call; when the checks pass,
  the handler makes exactly one outbound call, whatever the upstream answers.
\<close>

theorem validation_short_circuits:
  "(get_prop b1 (lit ''text'') = Inr t1 \<and> analyze_checks t1 = Inr (Some r1) \<longrightarrow>
      status r1 = 400 \<and> analyze_handler base ax b1 = (r1, [])) \<and>
   (get_prop b2 (lit ''text'') = Inr t2 \<and> analyze_checks t2 = Inr None \<longrightarrow>
      length (snd (analyze_handler base ax b2)) = 1) \<and>
   (get_prop b3 (lit ''texts'') = Inr t3 \<and> batch_checks t3 = Some r3 \<longrightarrow>
      status r3 = 400 \<and> batch_handler base ax b3 = (r3, [])) \<and>
   (get_prop b4 (lit ''texts'') = Inr t4 \<and> batch_checks t4 = None \<longrightarrow>
      length (snd (batch_handler base ax b4)) = 1)"
proof (intro conjI impI)
  assume "get_prop b1 (lit ''text'') = Inr t1 \<and> analyze_checks t1 = Inr (Some r1)"
  then show "status r1 = 400" and "analyze_handler base ax b1 = (r1, [])"
    by (auto simp add: analyze_handler_rejected dest: analyze_checks_status)
next
  assume h: "get_prop b2 (lit ''text'') = Inr t2 \<and> analyze_checks t2 = Inr None"
  then obtain s where "t2 = JStr s"
    using analyze_checks_passed by blast
  with h show "length (snd (analyze_handler base ax b2)) = 1"
    by (simp add: analyze_handler_forwarded)
next
  assume "get_prop b3 (lit ''texts'') = Inr t3 \<and> batch_checks t3 = Some r3"
  then show "status r3 = 400" and "batch_handler base ax b3 = (r3, [])"
    by (auto simp add: batch_handler_rejected dest: batch_checks_status)
next
  assume h: "get_prop b4 (lit ''texts'') = Inr t4 \<and> batch_checks t4 = None"
  then obtain ss where "t4 = JArr (map JStr ss)"
    using batch_checks_passed by blast
  with h show "length (snd (batch_handler base ax b4)) = 1"
    by (simp add: batch_handler_forwarded)
qed

text \<open>The theorem at an empty text, a valid text, an empty batch and a valid batch.\<close>

theorem validation_short_circuits_witness:
  "analyze_checks (JStr (lit '''')) =
     Inr (Some (error_json 400 (lit ''Text is required and cannot be empty'') None)) \<and>
   analyze_handler default_url upstream_answering (JObj [(lit ''text'', JStr (lit ''''))]) =
     (error_json 400 (lit ''Text is required and cannot be empty'') None, []) \<and>
   analyze_checks (JStr (lit ''I love this!'')) = Inr None \<and>
   length (snd (analyze_handler default_url upstream_answering
       (JObj [(lit ''text'', JStr (lit ''I love this!''))]))) = 1 \<and>
   batch_checks (JArr []) =
     Some (error_json 400 (lit ''Texts array is required and cannot be empty'') None) \<and>
   batch_handler default_url upstream_answering (JObj [(lit ''texts'', JArr [])]) =
     (error_json 400 (lit ''Texts array is required and cannot be empty'') None, []) \<and>
   batch_checks (JArr [JStr (lit ''ok'')]) = None \<and>
   length (snd (batch_handler default_url upstream_answering
       (JObj [(lit ''texts'', JArr [JStr (lit ''ok'')])]))) = 1"
proof -
  have a: "analyze_checks (JStr (lit '''')) =
     Inr (Some (error_json 400 (lit ''Text is required and cannot be empty'') None))"
    by (simp add: analyze_checks_string lit_def)
  have "trim (lit ''I love this!'') = lit ''I love this!''"
    by (rule trim_id) (simp_all add: lit_def is_white_space_def)
  then have b: "analyze_checks (JStr (lit ''I love this!'')) = Inr None"
    by (simp add: analyze_checks_string) (simp add: lit_def)
  have c: "batch_checks (JArr []) =
     Some (error_json 400 (lit ''Texts array is required and cannot be empty'') None)"
    by simp
  have "trim (lit ''ok'') = lit ''ok''"
    by (rule trim_id) (simp_all add: lit_def is_white_space_def)
  then have "batch_checks (JArr (map JStr [lit ''ok''])) = None"
    by (intro batch_checks_strings) (simp_all add: lit_def)
  then have d: "batch_checks (JArr [JStr (lit ''ok'')]) = None"
    by simp
  from validation_short_circuits [of
      "JObj [(lit ''text'', JStr (lit ''''))]" "JStr (lit '''')"
      "error_json 400 (lit ''Text is required and cannot be empty'') None"
      default_url upstream_answering
      "JObj [(lit ''text'', JStr (lit ''I love this!''))]" "JStr (lit ''I love this!'')"
      "JObj [(lit ''texts'', JArr [])]" "JArr []"
      "error_json 400 (lit ''Texts array is required and cannot be empty'') None"
      "JObj [(lit ''texts'', JArr [JStr (lit ''ok'')])]" "JArr [JStr (lit ''ok'')]"]
    a b c d
  show ?thesis by simp
qed

text \<open>
  C6, as amended. On both routes, when the forwarded call is rejected with an error that
  carries the upstream response (status \<open>st\<close>, body \<open>d\<close>), which is how axios reports
  a status outside 2xx and whose code is then not \<open>ECONNREFUSED\<close>, and \<open>st\<close> is a
  status that is sent with a body (from 300 to 999 and not 304), the handler answers
  with the same status \<open>st\<close>, the error \<open>AI service error\<close> and \<open>d\<close> in \<open>details\<close>.
\<close>

theorem upstream_error_passthrough:
  "(get_prop b1 (lit ''text'') = Inr (JStr s) \<and> analyze_checks (JStr s) = Inr None \<and>
    ax (analyze_call base (trim s)) = Inl e \<and>
    response e = Some (st, d) \<and> code e \<noteq> Some (lit ''ECONNREFUSED'') \<and>
    300 \<le> st \<and> st \<le> 999 \<and> st \<noteq> 304 \<longrightarrow>
      analyze_handler base ax b1 =
        (\<lparr>status = st, body = ErrorJson \<lparr>error = lit ''AI service error'', details = Some d\<rparr>\<rparr>,
         [analyze_call base (trim s)])) \<and>
   (get_prop b2 (lit ''texts'') = Inr (JArr (map JStr ss)) \<and>
    batch_checks (JArr (map JStr ss)) = None \<and>
    ax (batch_call base (map (\<lambda>s. JStr (trim s)) ss)) = Inl e' \<and>
    response e' = Some (st', d') \<and> code e' \<noteq> Some (lit ''ECONNREFUSED'') \<and>
    300 \<le> st' \<and> st' \<le> 999 \<and> st' \<noteq> 304 \<longrightarrow>
      batch_handler base ax b2 =
        (\<lparr>status = st', body = ErrorJson \<lparr>error = lit ''AI service error'', details = Some d'\<rparr>\<rparr>,
         [batch_call base (map (\<lambda>s. JStr (trim s)) ss)]))"
  by (simp add: analyze_handler_forwarded batch_handler_forwarded analyze_catch_def
      batch_catch_def error_json_def no_body_status_def)

text \<open>The theorem at an upstream that answers 422.\<close>

theorem upstream_error_passthrough_witness:
  "analyze_handler default_url upstream_rejecting (JObj [(lit ''text'', JStr (lit ''ok''))]) =
     (\<lparr>status = 422,
       body = ErrorJson \<lparr>error = lit ''AI service error'',
           details = Some (JObj [(lit ''detail'', JStr (lit ''Unprocessable''))])\<rparr>\<rparr>,
      [analyze_call default_url (lit ''ok'')]) \<and>
   batch_handler default_url upstream_rejecting (JObj [(lit ''texts'', JArr [JStr (lit ''ok'')])]) =
     (\<lparr>status = 422,
       body = ErrorJson \<lparr>error = lit ''AI service error'',
           details = Some (JObj [(lit ''detail'', JStr (lit ''Unprocessable''))])\<rparr>\<rparr>,
      [batch_call default_url [JStr (lit ''ok'')]])"
proof -
  let ?e = "\<lparr>code = Some (lit ''ERR_BAD_REQUEST''),
          response = Some (422, JObj [(lit ''detail'', JStr (lit ''Unprocessable''))]),
          message = lit ''Request failed with status code 422''\<rparr>"
  have t: "trim (lit ''ok'') = lit ''ok''"
    by (rule trim_id) (simp_all add: lit_def is_white_space_def)
  then have a: "analyze_checks (JStr (lit ''ok'')) = Inr None"
    by (simp add: analyze_checks_string) (simp add: lit_def)
  from t have "batch_checks (JArr (map JStr [lit ''ok''])) = None"
    by (intro batch_checks_strings) (simp_all add: lit_def)
  then have b: "batch_checks (JArr [JStr (lit ''ok'')]) = None"
    by simp
  from upstream_error_passthrough [of
      "JObj [(lit ''text'', JStr (lit ''ok''))]" "lit ''ok''" upstream_rejecting default_url
      ?e 422 "JObj [(lit ''detail'', JStr (lit ''Unprocessable''))]"
      "JObj [(lit ''texts'', JArr [JStr (lit ''ok'')])]" "[lit ''ok'']"
      ?e 422 "JObj [(lit ''detail'', JStr (lit ''Unprocessable''))]"]
    a b
  show ?thesis by (simp add: t upstream_rejecting_def)
qed

text \<open>
  C6 as stated fails at an upstream 304: the status is passed through, but a 304
  response is sent without a body, so neither the \<open>error\<close> field nor the upstream body
  in \<open>details\<close> reaches the client. The same holds on the batch route.
\<close>

theorem upstream_not_modified_counterexample:
  "analyze_handler default_url upstream_not_modified (JObj [(lit ''text'', JStr (lit ''ok''))]) =
     (\<lparr>status = 304, body = NoBody\<rparr>, [analyze_call default_url (lit ''ok'')]) \<and>
   body (fst (analyze_handler default_url upstream_not_modified
       (JObj [(lit ''text'', JStr (lit ''ok''))]))) \<noteq>
     ErrorJson \<lparr>error = lit ''AI service error'', details = Some (JStr [])\<rparr> \<and>
   batch_handler default_url upstream_not_modified
       (JObj [(lit ''texts'', JArr [JStr (lit ''ok'')])]) =
     (\<lparr>status = 304, body = NoBody\<rparr>, [batch_call default_url [JStr (lit ''ok'')]])"
proof -
  have t: "trim (lit ''ok'') = lit ''ok''"
    by (rule trim_id) (simp_all add: lit_def is_white_space_def)
  then have a: "analyze_checks (JStr (lit ''ok'')) = Inr None"
    by (simp add: analyze_checks_string) (simp add: lit_def)
  from t have b: "batch_checks (JArr (map JStr [lit ''ok''])) = None"
    by (intro batch_checks_strings) (simp_all add: lit_def)
  have "analyze_handler default_url upstream_not_modified
          (JObj [(lit ''text'', JStr (lit ''ok''))]) =
        (analyze_catch \<lparr>code = None, response = Some (304, JStr []),
            message = lit ''Request failed with status code 304''\<rparr>,
         [analyze_call default_url (lit ''ok'')])"
    using analyze_handler_forwarded [of "JObj [(lit ''text'', JStr (lit ''ok''))]"
        "lit ''ok''" default_url upstream_not_modified] a
    by (simp add: t upstream_not_modified_def)
  moreover have "batch_handler default_url upstream_not_modified
          (JObj [(lit ''texts'', JArr [JStr (lit ''ok'')])]) =
        (batch_catch \<lparr>code = None, response = Some (304, JStr []),
            message = lit ''Request failed with status code 304''\<rparr>,
         [batch_call default_url [JStr (lit ''ok'')]])"
    using batch_handler_forwarded [of "JObj [(lit ''texts'', JArr [JStr (lit ''ok'')])]"
        "[lit ''ok'']" default_url upstream_not_modified] b
    by (simp add: t upstream_not_modified_def)
  ultimately show ?thesis
    by (simp add: batch_catch_def analyze_catch_def error_json_def no_body_status_def)
qed

text \<open>
  C2. When the upstream host name does not resolve (code \<open>ENOTFOUND\<close>, no response),
  the batch route answers a valid batch with HTTP 500 and \<open>Internal server error\<close>: its
  catch block has no branch for \<open>ENOTFOUND\<close>. The single-text route answers the same
  failure with HTTP 503, \<open>AI service configuration error\<close> and
  \<open>Cannot resolve AI service hostname\<close>.
\<close>

theorem batch_name_resolution_unmapped:
  "batch_handler default_url upstream_unresolvable (JObj [(lit ''texts'', JArr [JStr (lit ''ok'')])]) =
     (\<lparr>status = 500,
       body = ErrorJson \<lparr>error = lit ''Internal server error'',
           details = Some (JStr (lit ''An unexpected error occurred while processing batch request''))\<rparr>\<rparr>,
      [batch_call default_url [JStr (lit ''ok'')]]) \<and>
   analyze_handler default_url upstream_unresolvable (JObj [(lit ''text'', JStr (lit ''ok''))]) =
     (\<lparr>status = 503,
       body = ErrorJson \<lparr>error = lit ''AI service configuration error'',
           details = Some (JStr (lit ''Cannot resolve AI service hostname''))\<rparr>\<rparr>,
      [analyze_call default_url (lit ''ok'')])"
proof -
  have t: "trim (lit ''ok'') = lit ''ok''"
    by (rule trim_id) (simp_all add: lit_def is_white_space_def)
  then have a: "analyze_checks (JStr (lit ''ok'')) = Inr None"
    by (simp add: analyze_checks_string) (simp add: lit_def)
  from t have "batch_checks (JArr (map JStr [lit ''ok''])) = None"
    by (intro batch_checks_strings) (simp_all add: lit_def)
  then have b: "batch_checks (JArr (map JStr [lit ''ok''])) = None"
    by simp
  have "batch_handler default_url upstream_unresolvable
          (JObj [(lit ''texts'', JArr [JStr (lit ''ok'')])]) =
        (batch_catch \<lparr>code = Some (lit ''ENOTFOUND''), response = None,
            message = lit ''getaddrinfo ENOTFOUND sentiment-service''\<rparr>,
         [batch_call default_url [JStr (lit ''ok'')]])"
    using batch_handler_forwarded [of "JObj [(lit ''texts'', JArr [JStr (lit ''ok'')])]"
        "[lit ''ok'']" default_url upstream_unresolvable] b
    by (simp add: t upstream_unresolvable_def)
  moreover have "analyze_handler default_url upstream_unresolvable
          (JObj [(lit ''text'', JStr (lit ''ok''))]) =
        (analyze_catch \<lparr>code = Some (lit ''ENOTFOUND''), response = None,
            message = lit ''getaddrinfo ENOTFOUND sentiment-service''\<rparr>,
         [analyze_call default_url (lit ''ok'')])"
    using analyze_handler_forwarded [of "JObj [(lit ''text'', JStr (lit ''ok''))]"
        "lit ''ok''" default_url upstream_unresolvable] a
    by (simp add: t upstream_unresolvable_def)
  ultimately show ?thesis
    by (simp add: batch_catch_def analyze_catch_def error_json_def no_body_status_def)
qed

end
